theory Spec2Isabelle
  imports Complex_Main "HOL-Library.AList"
begin

section \<open>The free-space tracker: \<open>engines/advanced_placement_engine.py\<close>\<close>

text \<open>
  Python floats are modelled as real numbers throughout: every comparison and sum of the
  source is read over the reals, without rounding.

  The three classes \<open>FreeSpace\<close>, \<open>PlacedItem\<close> and \<open>ContainerState\<close> all name their
  fields \<open>x\<close>, \<open>width\<close> and so on; the records below prefix every field (\<open>fs_\<close>, \<open>p_\<close>, \<open>cs_\<close>).
  \<open>PlacedItem.timestamp\<close> (a clock reading that no function modelled here looks at) is
  left out.
\<close>

record FreeSpace =
  fs_x :: real
  fs_y :: real
  fs_z :: real
  fs_width :: real
  fs_depth :: real
  fs_height :: real

record PlacedItem =
  p_item_id :: string
  p_x :: real
  p_y :: real
  p_z :: real
  p_width :: real
  p_depth :: real
  p_height :: real
  original_dims :: "real \<times> real \<times> real"
  p_priority :: int

record ContainerState =
  cs_container_id :: string
  cs_width :: real
  cs_depth :: real
  cs_height :: real
  cs_zone :: string
  cs_placed_items :: "PlacedItem list"
  cs_free_spaces :: "FreeSpace list"
  cs_total_volume :: real
  cs_used_volume :: real

type_synonym aabb = "real \<times> real \<times> real \<times> real \<times> real \<times> real"

definition mk_FreeSpace :: "real \<Rightarrow> real \<Rightarrow> real \<Rightarrow> real \<Rightarrow> real \<Rightarrow> real \<Rightarrow> FreeSpace" where
  "mk_FreeSpace x y z w d h =
     \<lparr>fs_x = x, fs_y = y, fs_z = z, fs_width = w, fs_depth = d, fs_height = h\<rparr>"

definition volume :: "FreeSpace \<Rightarrow> real" where
  "volume fs = fs_width fs * fs_depth fs * fs_height fs"

definition can_fit :: "FreeSpace \<Rightarrow> real \<Rightarrow> real \<Rightarrow> real \<Rightarrow> bool" where
  "can_fit fs w d h \<longleftrightarrow> fs_width fs \<ge> w \<and> fs_depth fs \<ge> d \<and> fs_height fs \<ge> h"

definition placed_get_volume :: "PlacedItem \<Rightarrow> real" where
  "placed_get_volume p = p_width p * p_depth p * p_height p"

definition get_aabb :: "PlacedItem \<Rightarrow> aabb" where
  "get_aabb p = (p_x p, p_y p, p_z p, p_x p + p_width p, p_y p + p_depth p, p_z p + p_height p)"

text \<open>\<open>ContainerState.__init__\<close>: one free box spanning the whole container, nothing placed.\<close>

definition ContainerState_init :: "string \<Rightarrow> real \<Rightarrow> real \<Rightarrow> real \<Rightarrow> string \<Rightarrow> ContainerState" where
  "ContainerState_init cid w d h zn =
     \<lparr>cs_container_id = cid, cs_width = w, cs_depth = d, cs_height = h, cs_zone = zn,
      cs_placed_items = [], cs_free_spaces = [mk_FreeSpace 0 0 0 w d h],
      cs_total_volume = w * d * h, cs_used_volume = 0\<rparr>"

text \<open>
  The overlap test that \<open>can_place_item\<close> applies to the candidate box and each placed
  box: the two overlap unless some axis separates them (touching faces do not overlap).
\<close>

fun aabb_overlap :: "aabb \<Rightarrow> aabb \<Rightarrow> bool" where
  "aabb_overlap (a0, a1, a2, a3, a4, a5) (b0, b1, b2, b3, b4, b5) \<longleftrightarrow>
     \<not> (a3 \<le> b0 \<or> a0 \<ge> b3 \<or> a4 \<le> b1 \<or> a1 \<ge> b4 \<or> a5 \<le> b2 \<or> a2 \<ge> b5)"

text \<open>The loop over \<open>self.placed_items\<close>: \<open>False\<close> at the first placed box that overlaps.\<close>

fun no_collision :: "aabb \<Rightarrow> PlacedItem list \<Rightarrow> bool" where
  "no_collision item_aabb [] = True"
| "no_collision item_aabb (placed_item # rest) =
     (if aabb_overlap item_aabb (get_aabb placed_item) then False
      else no_collision item_aabb rest)"

definition can_place_item ::
  "ContainerState \<Rightarrow> real \<Rightarrow> real \<Rightarrow> real \<Rightarrow> real \<Rightarrow> real \<Rightarrow> real \<Rightarrow> bool" where
  "can_place_item cs x y z w d h =
     (if x < 0 \<or> y < 0 \<or> z < 0 \<or> x + w > cs_width cs \<or> y + d > cs_depth cs \<or> z + h > cs_height cs
      then False
      else no_collision (x, y, z, x + w, y + d, z + h) (cs_placed_items cs))"

definition spaces_overlap :: "FreeSpace \<Rightarrow> FreeSpace \<Rightarrow> bool" where
  "spaces_overlap space1 space2 \<longleftrightarrow>
     \<not> (fs_x space1 + fs_width space1 \<le> fs_x space2 \<or>
        fs_x space2 + fs_width space2 \<le> fs_x space1 \<or>
        fs_y space1 + fs_depth space1 \<le> fs_y space2 \<or>
        fs_y space2 + fs_depth space2 \<le> fs_y space1 \<or>
        fs_z space1 + fs_height space1 \<le> fs_z space2 \<or>
        fs_z space2 + fs_height space2 \<le> fs_z space1)"

text \<open>
  The body of the loop of \<open>_update_free_spaces\<close> for one overlapping free box: a left
  and a right residual along the width axis, of which those of volume above 10 are kept.
\<close>

definition splits_of :: "FreeSpace \<Rightarrow> FreeSpace \<Rightarrow> FreeSpace list" where
  "splits_of free_space item_space =
     (let splits = [];
          splits = (if fs_x item_space > fs_x free_space
                    then splits @ [mk_FreeSpace (fs_x free_space) (fs_y free_space) (fs_z free_space)
                                     (fs_x item_space - fs_x free_space)
                                     (fs_depth free_space) (fs_height free_space)]
                    else splits);
          splits = (if fs_x free_space + fs_width free_space > fs_x item_space + fs_width item_space
                    then splits @ [mk_FreeSpace (fs_x item_space + fs_width item_space)
                                     (fs_y free_space) (fs_z free_space)
                                     ((fs_x free_space + fs_width free_space)
                                        - (fs_x item_space + fs_width item_space))
                                     (fs_depth free_space) (fs_height free_space)]
                    else splits)
      in filter (\<lambda>s. volume s > 10) splits)"

fun split_loop :: "FreeSpace \<Rightarrow> FreeSpace list \<Rightarrow> FreeSpace list \<Rightarrow> FreeSpace list" where
  "split_loop item_space [] new_free_spaces = new_free_spaces"
| "split_loop item_space (free_space # rest) new_free_spaces =
     (if spaces_overlap free_space item_space
      then split_loop item_space rest (new_free_spaces @ splits_of free_space item_space)
      else split_loop item_space rest (new_free_spaces @ [free_space]))"

text \<open>
  \<open>_update_free_spaces\<close>. Python's \<open>sort(key=volume, reverse=True)\<close> is stable, as is
  \<open>sort_key\<close> on the negated key; at most the 50 largest boxes are retained.
\<close>

definition update_free_spaces ::
  "ContainerState \<Rightarrow> real \<Rightarrow> real \<Rightarrow> real \<Rightarrow> real \<Rightarrow> real \<Rightarrow> real \<Rightarrow> ContainerState" where
  "update_free_spaces cs x y z w d h =
     (let item_space = mk_FreeSpace x y z w d h;
          new_free_spaces = split_loop item_space (cs_free_spaces cs) [];
          new_free_spaces = (if length new_free_spaces > 50
                             then take 50 (sort_key (\<lambda>fs. - volume fs) new_free_spaces)
                             else new_free_spaces)
      in cs\<lparr>cs_free_spaces := new_free_spaces\<rparr>)"

definition place_item ::
  "ContainerState \<Rightarrow> string \<Rightarrow> real \<Rightarrow> real \<Rightarrow> real \<Rightarrow> real \<Rightarrow> real \<Rightarrow> real
     \<Rightarrow> real \<times> real \<times> real \<Rightarrow> int \<Rightarrow> bool \<times> ContainerState" where
  "place_item cs iid x y z w d h odims prio =
     (if \<not> can_place_item cs x y z w d h then (False, cs)
      else
        let item = \<lparr>p_item_id = iid, p_x = x, p_y = y, p_z = z, p_width = w, p_depth = d,
                    p_height = h, original_dims = odims, p_priority = prio\<rparr>;
            cs = cs\<lparr>cs_placed_items := cs_placed_items cs @ [item]\<rparr>;
            cs = cs\<lparr>cs_used_volume := cs_used_volume cs + placed_get_volume item\<rparr>;
            cs = update_free_spaces cs x y z w d h
        in (True, cs))"

text \<open>
  A sequence of \<open>place_item\<close> calls on one container state, each call given by its nine
  arguments; a refused call leaves the state as it was and the sequence goes on.
\<close>

type_synonym place_args =
  "string \<times> real \<times> real \<times> real \<times> real \<times> real \<times> real \<times> (real \<times> real \<times> real) \<times> int"

fun place_call :: "ContainerState \<Rightarrow> place_args \<Rightarrow> bool \<times> ContainerState" where
  "place_call cs (iid, x, y, z, w, d, h, odims, prio) = place_item cs iid x y z w d h odims prio"

fun place_items :: "ContainerState \<Rightarrow> place_args list \<Rightarrow> ContainerState" where
  "place_items cs [] = cs"
| "place_items cs (c # calls) = place_items (snd (place_call cs c)) calls"

text \<open>The properties the invariants speak of.\<close>

definition within_bounds :: "ContainerState \<Rightarrow> PlacedItem \<Rightarrow> bool" where
  "within_bounds cs p \<longleftrightarrow>
     0 \<le> p_x p \<and> p_x p + p_width p \<le> cs_width cs \<and>
     0 \<le> p_y p \<and> p_y p + p_depth p \<le> cs_depth cs \<and>
     0 \<le> p_z p \<and> p_z p + p_height p \<le> cs_height cs"

fun pairwise_disjoint :: "PlacedItem list \<Rightarrow> bool" where
  "pairwise_disjoint [] = True"
| "pairwise_disjoint (p # ps) \<longleftrightarrow>
     no_collision (get_aabb p) ps \<and> pairwise_disjoint ps"

definition item_box :: "PlacedItem \<Rightarrow> FreeSpace" where
  "item_box p = mk_FreeSpace (p_x p) (p_y p) (p_z p) (p_width p) (p_depth p) (p_height p)"

definition free_inside :: "ContainerState \<Rightarrow> FreeSpace \<Rightarrow> bool" where
  "free_inside cs fs \<longleftrightarrow>
     0 \<le> fs_x fs \<and> fs_x fs + fs_width fs \<le> cs_width cs \<and>
     0 \<le> fs_y fs \<and> fs_y fs + fs_depth fs \<le> cs_depth cs \<and>
     0 \<le> fs_z fs \<and> fs_z fs + fs_height fs \<le> cs_height cs"

text \<open>
  Points of the container frame: a point lies in a box when each coordinate lies between
  the box's start and end on that axis (boundary included).
\<close>

definition point_in_box :: "real \<times> real \<times> real \<Rightarrow> FreeSpace \<Rightarrow> bool" where
  "point_in_box pt b \<longleftrightarrow>
     (case pt of (px, py, pz) \<Rightarrow>
        fs_x b \<le> px \<and> px \<le> fs_x b + fs_width b \<and>
        fs_y b \<le> py \<and> py \<le> fs_y b + fs_depth b \<and>
        fs_z b \<le> pz \<and> pz \<le> fs_z b + fs_height b)"

definition free_covers_unoccupied :: "ContainerState \<Rightarrow> bool" where
  "free_covers_unoccupied cs \<longleftrightarrow>
     (\<forall>pt. point_in_box pt (mk_FreeSpace 0 0 0 (cs_width cs) (cs_depth cs) (cs_height cs)) \<and>
           (\<forall>p \<in> set (cs_placed_items cs). \<not> point_in_box pt (item_box p))
           \<longrightarrow> (\<exists>fs \<in> set (cs_free_spaces cs). point_in_box pt fs))"


section \<open>Items, containers and dates: \<open>models/item.py\<close>, \<open>models/container.py\<close>\<close>

text \<open>
  A \<open>datetime\<close> is a count of microseconds together with the flag that says whether it
  carries a time zone. Python refuses to compare or subtract a zone-aware and a naive
  \<open>datetime\<close> (\<open>TypeError\<close>); two of the same kind compare by their instants.
  A \<open>timedelta\<close> is a count of microseconds, and its \<open>days\<close> the floor of its quotient
  by one day.
\<close>

datatype py_error = ValueError | TypeError | KeyError

datatype datetime = Datetime (aware: bool) (micros: int)

definition datetime_gt :: "datetime \<Rightarrow> datetime \<Rightarrow> py_error + bool" where
  "datetime_gt a b = (if aware a \<noteq> aware b then Inl TypeError else Inr (micros a > micros b))"

definition datetime_sub :: "datetime \<Rightarrow> datetime \<Rightarrow> py_error + int" where
  "datetime_sub a b = (if aware a \<noteq> aware b then Inl TypeError else Inr (micros a - micros b))"

definition timedelta_days :: "int \<Rightarrow> int" where
  "timedelta_days td = td div 86400000000"

text \<open>
  \<open>datetime.fromisoformat\<close> belongs to the Python library, not to this repository: the
  functions that call it take it as a parameter, \<open>None\<close> standing for its \<open>ValueError\<close>.
\<close>

type_synonym iso_parser = "string \<Rightarrow> datetime option"

record Coordinates3D =
  co_width :: real
  co_depth :: real
  co_height :: real

text \<open>
  The \<open>position\<close> dictionary of an item, \<open>{startCoordinates: {}, endCoordinates: {}}\<close>.
  Every position written by the repository holds both keys, so a present position is
  never the empty dictionary and \<open>not item.position\<close> is \<open>position = None\<close>.
\<close>

record position_dict =
  startCoordinates :: Coordinates3D
  endCoordinates :: Coordinates3D

record item =
  itemId :: string
  name :: string
  width :: real
  depth :: real
  height :: real
  priority :: int
  preferredZone :: string
  mass :: real
  expiryDate :: "string option"
  usageLimit :: int
  containerId :: "string option"
  position :: "position_dict option"
  currentUses :: int
  placementTimestamp :: "string option"

record Container =
  cont_containerId :: string
  cont_zone :: string
  cont_width :: real
  cont_depth :: real
  cont_height :: real
  cont_items :: "string list"

text \<open>
  A Python \<open>dict\<close> keeps its keys in insertion order: it is an association list, read with
  \<open>map_of\<close>, iterated in list order, assigned with \<open>AList.update\<close> and deleted from with
  \<open>AList.delete\<close>.
\<close>

type_synonym 'v dict = "(string \<times> 'v) list"

definition dict_values :: "'v dict \<Rightarrow> 'v list" where
  "dict_values d = map snd d"

definition dict_contains :: "string \<Rightarrow> 'v dict \<Rightarrow> bool" where
  "dict_contains k d \<longleftrightarrow> k \<in> set (map fst d)"

text \<open>Truthiness of an \<open>Optional[str]\<close>: \<open>None\<close> and the empty string are falsy.\<close>

fun truthy_str :: "string option \<Rightarrow> bool" where
  "truthy_str None = False"
| "truthy_str (Some s) = (s \<noteq> [])"


definition is_expired :: "iso_parser \<Rightarrow> item \<Rightarrow> datetime \<Rightarrow> bool" where
  "is_expired fromisoformat it current_date =
     (case expiryDate it of
        None \<Rightarrow> False
      | Some s \<Rightarrow>
          if s = [] \<or> s = ''N/A'' then False
          else (case fromisoformat s of
                  None \<Rightarrow> False
                | Some expiry \<Rightarrow>
                    (case datetime_gt current_date expiry of Inl e \<Rightarrow> False | Inr b \<Rightarrow> b)))"

definition is_depleted :: "item \<Rightarrow> bool" where
  "is_depleted it \<longleftrightarrow> currentUses it \<ge> usageLimit it"





section \<open>The priority scorer: \<open>PriorityCalculator.calculate_composite_priority\<close>\<close>

text \<open>\<open>str.replace('Z', '+00:00')\<close>.\<close>

definition replace_Z :: "string \<Rightarrow> string" where
  "replace_Z s = concat (map (\<lambda>c. if c = CHR ''Z'' then ''+00:00'' else [c]) s)"

text \<open>
  \<open>hasattr(item, 'usageCount')\<close> and \<open>getattr(item, 'usageCount', 0)\<close>: the \<open>Item\<close> model
  declares no field of that name (its counter is \<open>currentUses\<close>), so for every \<open>Item\<close> the
  test is false and the default is returned.
\<close>

definition hasattr_usageCount :: "item \<Rightarrow> bool" where
  "hasattr_usageCount it = False"

definition getattr_usageCount :: "item \<Rightarrow> int" where
  "getattr_usageCount it = 0"

definition expiry_score :: "iso_parser \<Rightarrow> item \<Rightarrow> datetime \<Rightarrow> real" where
  "expiry_score fromisoformat it current_time =
     (case expiryDate it of
        None \<Rightarrow> 0
      | Some s \<Rightarrow>
          if s = [] then 0
          else (case fromisoformat (replace_Z s) of
                  None \<Rightarrow> 0
                | Some expiry_date \<Rightarrow>
                    (case datetime_sub expiry_date current_time of
                       Inl e \<Rightarrow> 0
                     | Inr td \<Rightarrow>
                         let days_to_expiry = timedelta_days td in
                         if days_to_expiry \<le> 0 then 30
                         else if days_to_expiry \<le> 7 then 25
                         else if days_to_expiry \<le> 30 then 15
                         else if days_to_expiry \<le> 90 then 5
                         else 0)))"

definition usage_score :: "item \<Rightarrow> real" where
  "usage_score it =
     (if hasattr_usageCount it then
        (if usageLimit it \<noteq> 0 \<and> usageLimit it > 0 then
           let remaining_uses = usageLimit it - getattr_usageCount it;
               usage_ratio = real_of_int remaining_uses / real_of_int (usageLimit it)
           in if remaining_uses \<le> 0 then 20
              else if usage_ratio \<le> 1 / 10 then 15
              else if usage_ratio \<le> 1 / 4 then 10
              else if usage_ratio \<le> 1 / 2 then 5
              else 0
         else 0)
      else 0)"

definition zone_score :: "item \<Rightarrow> real" where
  "zone_score it = (if priority it \<ge> 80 then 10 else if priority it \<ge> 60 then 5 else 0)"

definition calculate_composite_priority :: "iso_parser \<Rightarrow> item \<Rightarrow> datetime \<Rightarrow> real" where
  "calculate_composite_priority fromisoformat it current_time =
     (let base_priority = (real_of_int (priority it) / 100) * 40;
          total_score = base_priority + expiry_score fromisoformat it current_time
                          + usage_score it + zone_score it
      in min total_score 100)"

text \<open>
  The usage term as the specification words it, from \<open>remaining = usageLimit - currentUses\<close>,
  for comparison with \<open>usage_score\<close>.
\<close>

definition usage_score_spec :: "item \<Rightarrow> real" where
  "usage_score_spec it =
     (let remaining = usageLimit it - currentUses it;
          ratio = real_of_int remaining / real_of_int (usageLimit it)
      in if remaining \<le> 0 then 20
         else if ratio \<le> 1 / 10 then 15
         else if ratio \<le> 1 / 4 then 10
         else if ratio \<le> 1 / 2 then 5
         else 0)"

definition composite_score_spec :: "iso_parser \<Rightarrow> item \<Rightarrow> datetime \<Rightarrow> real" where
  "composite_score_spec fromisoformat it now =
     min 100 ((real_of_int (priority it) / 100) * 40 + expiry_score fromisoformat it now
                + usage_score_spec it + zone_score it)"


section \<open>The retrieval engine: \<open>engines/retrieval_engine.py\<close>\<close>

record RetrievalStep =
  rs_step :: int
  rs_action :: string
  rs_itemId :: string
  rs_itemName :: string

definition overlaps_in_plane ::
  "Coordinates3D \<Rightarrow> Coordinates3D \<Rightarrow> Coordinates3D \<Rightarrow> Coordinates3D \<Rightarrow> bool" where
  "overlaps_in_plane target_start target_end item_start item_end =
     (let width_overlap = \<not> (co_width target_end \<le> co_width item_start \<or>
                              co_width target_start \<ge> co_width item_end);
          height_overlap = \<not> (co_height target_end \<le> co_height item_start \<or>
                               co_height target_start \<ge> co_height item_end)
      in width_overlap \<and> height_overlap)"

text \<open>
  The loop that \<open>_get_blocking_items\<close> and \<open>calculate_retrieval_steps\<close> both run over
  \<open>placed_items.values()\<close>, appending each item of the target's container, other than the
  target, that passes the test of the source.
\<close>

fun blocking_loop ::
  "item \<Rightarrow> Coordinates3D \<Rightarrow> Coordinates3D \<Rightarrow> item list \<Rightarrow> item list \<Rightarrow> item list" where
  "blocking_loop target_item target_start target_end [] blocking_items = blocking_items"
| "blocking_loop target_item target_start target_end (it # rest) blocking_items =
     (case position it of
        Some pos \<Rightarrow>
          if containerId it = containerId target_item \<and> itemId it \<noteq> itemId target_item
          then
            let item_start = startCoordinates pos; item_end = endCoordinates pos in
            if co_depth item_end > co_depth target_start \<and>
               overlaps_in_plane target_start target_end item_start item_end
            then blocking_loop target_item target_start target_end rest (blocking_items @ [it])
            else blocking_loop target_item target_start target_end rest blocking_items
          else blocking_loop target_item target_start target_end rest blocking_items
      | None \<Rightarrow> blocking_loop target_item target_start target_end rest blocking_items)"

text \<open>
  The sort key \<open>position["startCoordinates"].depth\<close>; every item in a blocking list has
  a position, so the \<open>None\<close> branch is never taken there.
\<close>

definition start_depth :: "item \<Rightarrow> real" where
  "start_depth it = (case position it of Some pos \<Rightarrow> co_depth (startCoordinates pos) | None \<Rightarrow> 0)"

definition get_blocking_items :: "item \<Rightarrow> item dict \<Rightarrow> Container dict \<Rightarrow> item list" where
  "get_blocking_items target_item placed_items containers =
     (if \<not> truthy_str (containerId target_item) then []
      else case position target_item of
             None \<Rightarrow> []
           | Some tpos \<Rightarrow>
               sort_key start_depth
                 (blocking_loop target_item (startCoordinates tpos) (endCoordinates tpos)
                    (dict_values placed_items) []))"


fun append_steps ::
  "string \<Rightarrow> item list \<Rightarrow> RetrievalStep list \<Rightarrow> int \<Rightarrow> RetrievalStep list \<times> int" where
  "append_steps act [] steps step_number = (steps, step_number)"
| "append_steps act (it # rest) steps step_number =
     append_steps act rest
       (steps @ [\<lparr>rs_step = step_number, rs_action = act, rs_itemId = itemId it,
                  rs_itemName = name it\<rparr>])
       (step_number + 1)"

definition get_retrieval_steps :: "item \<Rightarrow> item dict \<Rightarrow> Container dict \<Rightarrow> RetrievalStep list" where
  "get_retrieval_steps target_item placed_items containers =
     (let steps = []; step_number = 1 in
      if \<not> truthy_str (containerId target_item) \<or> position target_item = None then steps
      else
        let blocking_items = get_blocking_items target_item placed_items containers;
            (steps, step_number) = append_steps ''remove'' blocking_items steps step_number;
            steps = steps @ [\<lparr>rs_step = step_number, rs_action = ''retrieve'',
                              rs_itemId = itemId target_item, rs_itemName = name target_item\<rparr>];
            step_number = step_number + 1;
            (steps, step_number) = append_steps ''placeBack'' (rev blocking_items) steps step_number
        in steps)"

text \<open>
  \<open>simulate_retrieval\<close> reads the clock (\<open>datetime.now()\<close>, a naive \<open>datetime\<close>): the
  reading is the parameter \<open>now\<close>. The item object is shared with the dictionary, so
  incrementing its counter changes the dictionary entry under \<open>item_id\<close>; the dictionary
  is returned next to the triple the source returns.
\<close>

definition simulate_retrieval ::
  "iso_parser \<Rightarrow> int \<Rightarrow> string \<Rightarrow> string \<Rightarrow> item dict \<Rightarrow> Container dict
     \<Rightarrow> (bool \<times> string \<times> item option) \<times> item dict" where
  "simulate_retrieval fromisoformat now item_id user_id placed_items containers =
     (case map_of placed_items item_id of
        None \<Rightarrow> ((False, ''Item '' @ item_id @ '' not found'', None), placed_items)
      | Some it \<Rightarrow>
          if \<not> truthy_str (containerId it) \<or> position it = None
          then ((False, ''Item '' @ item_id @ '' is not placed in any container'', None), placed_items)
          else
            let current_date = Datetime False now in
            if is_expired fromisoformat it current_date
            then ((False, ''Item '' @ item_id @ '' is expired'', None), placed_items)
            else if is_depleted it
            then ((False, ''Item '' @ item_id @ '' has no remaining uses'', None), placed_items)
            else
              let it = it\<lparr>currentUses := currentUses it + 1\<rparr> in
              ((True, ''Item retrieved successfully'', Some it),
               AList.update item_id it placed_items))"

section \<open>The waste and return planner: \<open>engines/waste_engine.py\<close>\<close>

record WasteInfo =
  w_itemId :: string
  w_name :: string
  w_reason :: string
  w_containerId :: "string option"
  w_position :: "position_dict option"

text \<open>
  \<open>identify_waste_items\<close>, with the current date given (the source reads the clock when
  the caller passes none).
\<close>

fun identify_waste_loop ::
  "iso_parser \<Rightarrow> datetime \<Rightarrow> item list \<Rightarrow> WasteInfo list \<Rightarrow> WasteInfo list" where
  "identify_waste_loop fromisoformat current_date [] waste_items = waste_items"
| "identify_waste_loop fromisoformat current_date (it # rest) waste_items =
     (if \<not> truthy_str (containerId it) \<or> position it = None
      then identify_waste_loop fromisoformat current_date rest waste_items
      else
        let reason = (if is_expired fromisoformat it current_date then Some ''Expired''
                      else if is_depleted it then Some ''Out of Uses''
                      else None)
        in case reason of
             Some r \<Rightarrow>
               identify_waste_loop fromisoformat current_date rest
                 (waste_items @ [\<lparr>w_itemId = itemId it, w_name = name it, w_reason = r,
                                   w_containerId = containerId it, w_position = position it\<rparr>])
           | None \<Rightarrow> identify_waste_loop fromisoformat current_date rest waste_items)"

definition identify_waste_items :: "iso_parser \<Rightarrow> item dict \<Rightarrow> datetime \<Rightarrow> WasteInfo list" where
  "identify_waste_items fromisoformat placed_items current_date =
     identify_waste_loop fromisoformat current_date (dict_values placed_items) []"













text \<open>
  \<open>execute_undocking\<close> mutates both dictionaries; they are returned next to the pair
  the source returns.
\<close>

fun collect_loop :: "string \<Rightarrow> item dict \<Rightarrow> string list \<Rightarrow> int \<Rightarrow> string list \<times> int" where
  "collect_loop undocking_container_id [] items_to_remove items_removed =
     (items_to_remove, items_removed)"
| "collect_loop undocking_container_id ((item_id, it) # rest) items_to_remove items_removed =
     (if containerId it = Some undocking_container_id
      then collect_loop undocking_container_id rest (items_to_remove @ [item_id]) (items_removed + 1)
      else collect_loop undocking_container_id rest items_to_remove items_removed)"

fun remove_loop :: "string list \<Rightarrow> item dict \<Rightarrow> item dict" where
  "remove_loop [] placed_items = placed_items"
| "remove_loop (item_id # rest) placed_items =
     (if dict_contains item_id placed_items
      then remove_loop rest (AList.delete item_id placed_items)
      else remove_loop rest placed_items)"

definition execute_undocking ::
  "string \<Rightarrow> item dict \<Rightarrow> Container dict \<Rightarrow> (bool \<times> int) \<times> item dict \<times> Container dict" where
  "execute_undocking undocking_container_id placed_items containers =
     (if \<not> dict_contains undocking_container_id containers
      then ((False, 0), placed_items, containers)
      else
        let (items_to_remove, items_removed) =
              collect_loop undocking_container_id placed_items [] 0;
            placed_items = remove_loop items_to_remove placed_items;
            containers = (if dict_contains undocking_container_id containers
                          then AList.delete undocking_container_id containers
                          else containers)
        in ((True, items_removed), placed_items, containers))"


section \<open>Invariants used in the proofs\<close>

text \<open>
  \<open>sub_box s f\<close>: the box \<open>s\<close> lies inside the box \<open>f\<close>. \<open>placement_inv\<close> and \<open>free_inv\<close>
  are the properties that every \<open>place_item\<close> call is shown to keep.
\<close>

definition sub_box :: "FreeSpace \<Rightarrow> FreeSpace \<Rightarrow> bool" where
  "sub_box s f \<longleftrightarrow>
     fs_x f \<le> fs_x s \<and> fs_x s + fs_width s \<le> fs_x f + fs_width f \<and>
     fs_y f \<le> fs_y s \<and> fs_y s + fs_depth s \<le> fs_y f + fs_depth f \<and>
     fs_z f \<le> fs_z s \<and> fs_z s + fs_height s \<le> fs_z f + fs_height f"

definition placement_inv :: "ContainerState \<Rightarrow> bool" where
  "placement_inv cs \<longleftrightarrow>
     pairwise_disjoint (cs_placed_items cs) \<and>
     (\<forall>p \<in> set (cs_placed_items cs). within_bounds cs p)"

definition free_inv :: "ContainerState \<Rightarrow> bool" where
  "free_inv cs \<longleftrightarrow>
     (\<forall>fs \<in> set (cs_free_spaces cs).
        free_inside cs fs \<and>
        (\<forall>p \<in> set (cs_placed_items cs). \<not> spaces_overlap fs (item_box p)))"



text \<open>
  \<open>unparseable_expiry\<close>: the expiry field is a non-empty string other than \<open>N/A\<close> that
  \<open>fromisoformat\<close> rejects.
\<close>

definition unparseable_expiry :: "iso_parser \<Rightarrow> item \<Rightarrow> bool" where
  "unparseable_expiry fromisoformat it \<longleftrightarrow>
     (case expiryDate it of
        None \<Rightarrow> False
      | Some s \<Rightarrow> s \<noteq> [] \<and> s \<noteq> ''N/A'' \<and> fromisoformat s = None)"

section \<open>Sample data\<close>

text \<open>
  A parser that knows one date (taken as instant 0, naive), a container and a few items
  placed in it, for the concrete instances below. One day is 86400000000 microseconds.
\<close>

definition sample_parser :: iso_parser where
  "sample_parser s = (if s = ''2025-06-01T00:00:00'' then Some (Datetime False 0) else None)"

definition one_day :: int where
  "one_day = 86400000000"

definition sample_position :: "real \<Rightarrow> real \<Rightarrow> position_dict" where
  "sample_position d0 d1 =
     \<lparr>startCoordinates = \<lparr>co_width = 0, co_depth = d0, co_height = 0\<rparr>,
      endCoordinates = \<lparr>co_width = 10, co_depth = d1, co_height = 10\<rparr>\<rparr>"

definition sample_item :: item where
  "sample_item =
     \<lparr>itemId = ''000001'', name = ''Food'', width = 10, depth = 10, height = 10,
      priority = 50, preferredZone = ''Galley'', mass = 5,
      expiryDate = Some ''2025-06-01T00:00:00'', usageLimit = 10,
      containerId = Some ''contA'', position = Some (sample_position 0 10), currentUses = 0,
      placementTimestamp = None\<rparr>"

definition garbled_item :: item where
  "garbled_item = sample_item\<lparr>expiryDate := Some ''next week''\<rparr>"

definition used_up_item :: item where
  "used_up_item = sample_item\<lparr>expiryDate := None, currentUses := 10\<rparr>"

definition rear_item :: item where
  "rear_item = sample_item\<lparr>itemId := ''000002'', name := ''Tools'',
                            position := Some (sample_position 20 30)\<rparr>"

definition sample_container :: Container where
  "sample_container =
     \<lparr>cont_containerId = ''contA'', cont_zone = ''Galley'', cont_width = 100, cont_depth = 100,
      cont_height = 100, cont_items = [''000001'']\<rparr>"

text \<open>
  A parser that also knows a date written with a UTC offset, 1978 days before instant 0 (a
  zone-aware \<open>datetime\<close>), and an item with that expiry date.
\<close>

definition zoned_parser :: iso_parser where
  "zoned_parser s =
     (if s = ''2020-01-01T00:00:00+00:00'' then Some (Datetime True (- 1978 * one_day))
      else sample_parser s)"

definition zoned_item :: item where
  "zoned_item = sample_item\<lparr>itemId := ''000003'', name := ''Medicine'',
                             expiryDate := Some ''2020-01-01T00:00:00+00:00''\<rparr>"

section \<open>No overlap and containment of placed items\<close>

lemma no_collision_iff:
  "no_collision a ps \<longleftrightarrow> (\<forall>p \<in> set ps. \<not> aabb_overlap a (get_aabb p))"
  by (induction ps) auto

lemma aabb_overlap_commute: "aabb_overlap a b = aabb_overlap b a"
  by (cases a; cases b) auto

lemma pairwise_disjoint_snoc:
  "pairwise_disjoint (ps @ [p]) \<longleftrightarrow>
     pairwise_disjoint ps \<and> no_collision (get_aabb p) ps"
  by (induction ps) (auto simp: no_collision_iff aabb_overlap_commute)

lemma pairwise_disjoint_nth:
  "pairwise_disjoint ps \<Longrightarrow> i < j \<Longrightarrow> j < length ps \<Longrightarrow>
     \<not> aabb_overlap (get_aabb (ps ! i)) (get_aabb (ps ! j))"
proof (induction ps arbitrary: i j)
  case Nil
  then show ?case by simp
next
  case (Cons p ps)
  show ?case
  proof (cases i)
    case 0
    with Cons.prems obtain j' where j': "j = Suc j'" "j' < length ps"
      by (cases j) auto
    from Cons.prems(1) have "\<not> aabb_overlap (get_aabb p) (get_aabb (ps ! j'))"
      using j' by (simp add: no_collision_iff)
    with 0 j' show ?thesis by simp
  next
    case (Suc i')
    with Cons.prems obtain j' where j': "j = Suc j'" "i' < j'" "j' < length ps"
      by (cases j) auto
    with Cons.IH[of i' j'] Cons.prems(1) Suc show ?thesis by simp
  qed
qed

lemma update_free_spaces_fields:
  "cs_placed_items (update_free_spaces cs x y z w d h) = cs_placed_items cs"
  "cs_width (update_free_spaces cs x y z w d h) = cs_width cs"
  "cs_depth (update_free_spaces cs x y z w d h) = cs_depth cs"
  "cs_height (update_free_spaces cs x y z w d h) = cs_height cs"
  by (simp_all add: update_free_spaces_def Let_def)

lemma place_item_fields:
  "cs_width (snd (place_item cs iid x y z w d h od pr)) = cs_width cs"
  "cs_depth (snd (place_item cs iid x y z w d h od pr)) = cs_depth cs"
  "cs_height (snd (place_item cs iid x y z w d h od pr)) = cs_height cs"
  by (simp_all add: place_item_def Let_def update_free_spaces_fields)

lemma place_item_placed:
  "cs_placed_items (snd (place_item cs iid x y z w d h od pr)) =
     (if can_place_item cs x y z w d h
      then cs_placed_items cs @ [\<lparr>p_item_id = iid, p_x = x, p_y = y, p_z = z, p_width = w,
              p_depth = d, p_height = h, original_dims = od, p_priority = pr\<rparr>]
      else cs_placed_items cs)"
  by (simp add: place_item_def Let_def update_free_spaces_fields)

lemma place_item_placement_inv:
  assumes "placement_inv cs"
  shows "placement_inv (snd (place_item cs iid x y z w d h od pr))"
proof (cases "can_place_item cs x y z w d h")
  case False
  with assms show ?thesis by (simp add: place_item_def)
next
  case True
  let ?p = "\<lparr>p_item_id = iid, p_x = x, p_y = y, p_z = z, p_width = w,
              p_depth = d, p_height = h, original_dims = od, p_priority = pr\<rparr>"
  from True have nc: "no_collision (get_aabb ?p) (cs_placed_items cs)"
    by (simp add: can_place_item_def get_aabb_def split: if_splits)
  from True have wb: "within_bounds cs ?p"
    by (auto simp: can_place_item_def within_bounds_def split: if_splits)
  from assms nc wb True show ?thesis
    by (auto simp: placement_inv_def place_item_placed place_item_fields
        pairwise_disjoint_snoc within_bounds_def)
qed

lemma place_items_placement_inv:
  "placement_inv cs \<Longrightarrow> placement_inv (place_items cs calls)"
proof (induction calls arbitrary: cs)
  case Nil
  then show ?case by simp
next
  case (Cons c calls)
  obtain iid x y z w d h od pr where c: "c = (iid, x, y, z, w, d, h, od, pr)"
    by (cases c) auto
  from Cons.prems have "placement_inv (snd (place_call cs c))"
    unfolding c by (simp add: place_item_placement_inv)
  then show ?case using Cons.IH by simp
qed

lemma init_placement_inv: "placement_inv (ContainerState_init cid w d h zn)"
  by (simp add: placement_inv_def ContainerState_init_def)


text \<open>
  Claim C1. Starting from a fresh \<open>ContainerState\<close>, after any sequence of \<open>place_item\<close>
  calls no two placed items overlap (the test of \<open>can_place_item\<close> is false for every pair)
  and every placed item lies within the container's bounds on the three axes; \<open>place_item\<close>
  returns \<open>True\<close> exactly for the positions that \<open>can_place_item\<close> accepts and changes nothing
  otherwise.
\<close>

theorem place_item_no_overlap_and_containment:
  "(let cs = place_items (ContainerState_init cid cw cd ch zn) calls in
      (\<forall>i < length (cs_placed_items cs). \<forall>j < length (cs_placed_items cs). i \<noteq> j \<longrightarrow>
          \<not> aabb_overlap (get_aabb (cs_placed_items cs ! i)) (get_aabb (cs_placed_items cs ! j))) \<and>
      (\<forall>p \<in> set (cs_placed_items cs). within_bounds cs p)) \<and>
   (fst (place_item st iid x y z w d h od pr) \<longleftrightarrow> can_place_item st x y z w d h) \<and>
   (\<not> can_place_item st x y z w d h \<longrightarrow> snd (place_item st iid x y z w d h od pr) = st)"
proof -
  let ?cs = "place_items (ContainerState_init cid cw cd ch zn) calls"
  have inv: "placement_inv ?cs"
    by (rule place_items_placement_inv) (rule init_placement_inv)
  have pd: "pairwise_disjoint (cs_placed_items ?cs)" using inv by (simp add: placement_inv_def)
  have "\<not> aabb_overlap (get_aabb (cs_placed_items ?cs ! i)) (get_aabb (cs_placed_items ?cs ! j))"
    if "i < length (cs_placed_items ?cs)" "j < length (cs_placed_items ?cs)" "i \<noteq> j" for i j
  proof (cases "i < j")
    case True
    with pd that show ?thesis by (simp add: pairwise_disjoint_nth)
  next
    case False
    with that have "j < i" by simp
    with pd that have "\<not> aabb_overlap (get_aabb (cs_placed_items ?cs ! j)) (get_aabb (cs_placed_items ?cs ! i))"
      by (simp add: pairwise_disjoint_nth)
    then show ?thesis by (simp add: aabb_overlap_commute)
  qed
  moreover have "\<forall>p \<in> set (cs_placed_items ?cs). within_bounds ?cs p"
    using inv by (simp add: placement_inv_def)
  moreover have "fst (place_item st iid x y z w d h od pr) \<longleftrightarrow> can_place_item st x y z w d h"
    by (simp add: place_item_def Let_def)
  moreover have "\<not> can_place_item st x y z w d h \<longrightarrow> snd (place_item st iid x y z w d h od pr) = st"
    by (simp add: place_item_def)
  ultimately show ?thesis by (simp add: Let_def)
qed

lemma two_placed_state:
  "place_items (ContainerState_init ''A'' 100 100 100 ''Lab'')
     [(''000001'', 0, 0, 0, 60, 60, 60, (60, 60, 60), 50),
      (''000002'', 0, 0, 0, 60, 60, 60, (60, 60, 60), 50),
      (''000003'', 60, 0, 0, 30, 30, 30, (30, 30, 30), 50)] =
   \<lparr>cs_container_id = ''A'', cs_width = 100, cs_depth = 100, cs_height = 100, cs_zone = ''Lab'',
    cs_placed_items =
      [\<lparr>p_item_id = ''000001'', p_x = 0, p_y = 0, p_z = 0, p_width = 60, p_depth = 60,
        p_height = 60, original_dims = (60, 60, 60), p_priority = 50\<rparr>,
       \<lparr>p_item_id = ''000003'', p_x = 60, p_y = 0, p_z = 0, p_width = 30, p_depth = 30,
        p_height = 30, original_dims = (30, 30, 30), p_priority = 50\<rparr>],
    cs_free_spaces = [mk_FreeSpace 90 0 0 10 100 100],
    cs_total_volume = 1000000, cs_used_volume = 243000\<rparr>"
  by (simp add: ContainerState_init_def place_item_def can_place_item_def update_free_spaces_def
      splits_of_def spaces_overlap_def mk_FreeSpace_def volume_def placed_get_volume_def Let_def
      get_aabb_def)


theorem place_item_no_overlap_and_containment_witness:
  "(let cs = place_items (ContainerState_init ''A'' 100 100 100 ''Lab'')
       [(''000001'', 0, 0, 0, 60, 60, 60, (60, 60, 60), 50),
        (''000002'', 0, 0, 0, 60, 60, 60, (60, 60, 60), 50),
        (''000003'', 60, 0, 0, 30, 30, 30, (30, 30, 30), 50)] in
      length (cs_placed_items cs) = 2 \<and>
      \<not> aabb_overlap (get_aabb (cs_placed_items cs ! 0)) (get_aabb (cs_placed_items cs ! 1)) \<and>
      within_bounds cs (cs_placed_items cs ! 0) \<and> within_bounds cs (cs_placed_items cs ! 1)) \<and>
   can_place_item (ContainerState_init ''A'' 100 100 100 ''Lab'') 0 0 0 60 60 60 \<and>
   fst (place_item (ContainerState_init ''A'' 100 100 100 ''Lab'') ''000001'' 0 0 0 60 60 60
          (60, 60, 60) 50) \<and>
   \<not> can_place_item (ContainerState_init ''A'' 100 100 100 ''Lab'') 50 50 50 60 60 60 \<and>
   snd (place_item (ContainerState_init ''A'' 100 100 100 ''Lab'') ''000001'' 50 50 50 60 60 60
          (60, 60, 60) 50) = ContainerState_init ''A'' 100 100 100 ''Lab''"
proof -
  let ?init = "ContainerState_init ''A'' 100 100 100 ''Lab''"
  let ?calls = "[(''000001'', 0, 0, 0, 60, 60, 60, (60, 60, 60), 50),
        (''000002'', 0, 0, 0, 60, 60, 60, (60, 60, 60), 50),
        (''000003'', 60, 0, 0, 30, 30, 30, (30, 30, 30), 50)] :: place_args list"
  have len: "length (cs_placed_items (place_items ?init ?calls)) = 2"
    unfolding two_placed_state by simp
  have ok: "can_place_item ?init 0 0 0 60 60 60"
    by (simp add: can_place_item_def ContainerState_init_def)
  have no: "\<not> can_place_item ?init 50 50 50 60 60 60"
    by (simp add: can_place_item_def ContainerState_init_def)
  note a = place_item_no_overlap_and_containment[of "''A''" 100 100 100 "''Lab''" ?calls ?init "''000001''" 0 0 0 60 60 60 "(60, 60, 60)" 50]
  note b = place_item_no_overlap_and_containment[of "''A''" 100 100 100 "''Lab''" ?calls ?init "''000001''" 50 50 50 60 60 60 "(60, 60, 60)" 50]
  from a b len ok no show ?thesis
    by (simp add: Let_def)
qed

section \<open>Free boxes after placements\<close>

lemma sub_box_refl: "sub_box f f"
  by (simp add: sub_box_def)

lemma sub_box_no_overlap:
  "sub_box s f \<Longrightarrow> \<not> spaces_overlap f q \<Longrightarrow> \<not> spaces_overlap s q"
  unfolding sub_box_def spaces_overlap_def by linarith

lemma sub_box_inside: "sub_box s f \<Longrightarrow> free_inside cs f \<Longrightarrow> free_inside cs s"
  unfolding sub_box_def free_inside_def by linarith

lemma splits_of_sound:
  assumes "s \<in> set (splits_of f i)" and "spaces_overlap f i"
  shows "sub_box s f \<and> \<not> spaces_overlap s i"
  using assms
  by (auto simp: splits_of_def Let_def mk_FreeSpace_def sub_box_def spaces_overlap_def
      split: if_splits)

lemma split_loop_sound:
  assumes "s \<in> set (split_loop i fs acc)"
  shows "s \<in> set acc \<or> (\<exists>f \<in> set fs. sub_box s f \<and> \<not> spaces_overlap s i)"
  using assms
proof (induction fs arbitrary: acc)
  case Nil
  then show ?case by simp
next
  case (Cons f fs)
  show ?case
  proof (cases "spaces_overlap f i")
    case True
    with Cons.prems have "s \<in> set (split_loop i fs (acc @ splits_of f i))" by simp
    from Cons.IH[OF this] True show ?thesis
      by (auto dest: splits_of_sound)
  next
    case False
    with Cons.prems have "s \<in> set (split_loop i fs (acc @ [f]))" by simp
    from Cons.IH[OF this] False show ?thesis
      by (auto simp: sub_box_refl)
  qed
qed

lemma update_free_spaces_sound:
  assumes "s \<in> set (cs_free_spaces (update_free_spaces cs x y z w d h))"
  shows "\<exists>f \<in> set (cs_free_spaces cs). sub_box s f \<and> \<not> spaces_overlap s (mk_FreeSpace x y z w d h)"
proof -
  from assms have "s \<in> set (split_loop (mk_FreeSpace x y z w d h) (cs_free_spaces cs) [])"
    by (auto simp: update_free_spaces_def Let_def split: if_splits dest: in_set_takeD)
  from split_loop_sound[OF this] show ?thesis by simp
qed

lemma place_item_free_inv:
  assumes "free_inv cs"
  shows "free_inv (snd (place_item cs iid x y z w d h od pr))"
proof (cases "can_place_item cs x y z w d h")
  case False
  with assms show ?thesis by (simp add: place_item_def)
next
  case True
  let ?p = "\<lparr>p_item_id = iid, p_x = x, p_y = y, p_z = z, p_width = w,
              p_depth = d, p_height = h, original_dims = od, p_priority = pr\<rparr>"
  let ?mid = "cs\<lparr>cs_placed_items := cs_placed_items cs @ [?p],
                 cs_used_volume := cs_used_volume cs + placed_get_volume ?p\<rparr>"
  let ?cs' = "update_free_spaces ?mid x y z w d h"
  have eq: "snd (place_item cs iid x y z w d h od pr) = ?cs'"
    using True by (simp add: place_item_def Let_def)
  have box: "item_box ?p = mk_FreeSpace x y z w d h"
    by (simp add: item_box_def)
  have placed: "cs_placed_items ?cs' = cs_placed_items cs @ [?p]"
    by (simp add: update_free_spaces_def Let_def)
  have "free_inside ?cs' s \<and> (\<forall>p \<in> set (cs_placed_items ?cs'). \<not> spaces_overlap s (item_box p))"
    if "s \<in> set (cs_free_spaces ?cs')" for s
  proof -
    from update_free_spaces_sound[OF that]
    obtain f where f: "f \<in> set (cs_free_spaces cs)" "sub_box s f"
      "\<not> spaces_overlap s (mk_FreeSpace x y z w d h)" by auto
    from assms f(1) have fin: "free_inside cs f"
      and fno: "\<forall>p \<in> set (cs_placed_items cs). \<not> spaces_overlap f (item_box p)"
      by (auto simp: free_inv_def)
    have "free_inside ?cs' s"
      using sub_box_inside[OF f(2) fin]
      by (simp add: free_inside_def update_free_spaces_def Let_def)
    moreover have "\<forall>p \<in> set (cs_placed_items ?cs'). \<not> spaces_overlap s (item_box p)"
      using fno f(2,3) box by (auto simp: placed dest: sub_box_no_overlap)
    ultimately show ?thesis by simp
  qed
  then show ?thesis unfolding eq free_inv_def by blast
qed

lemma place_items_free_inv: "free_inv cs \<Longrightarrow> free_inv (place_items cs calls)"
proof (induction calls arbitrary: cs)
  case Nil
  then show ?case by simp
next
  case (Cons c calls)
  obtain iid x y z w d h od pr where c: "c = (iid, x, y, z, w, d, h, od, pr)"
    by (cases c) auto
  from Cons.prems have "free_inv (snd (place_call cs c))"
    unfolding c by (simp add: place_item_free_inv)
  then show ?case using Cons.IH by simp
qed

lemma init_free_inv: "free_inv (ContainerState_init cid w d h zn)"
  by (simp add: free_inv_def ContainerState_init_def free_inside_def mk_FreeSpace_def)

lemma init_covers: "free_covers_unoccupied (ContainerState_init cid w d h zn)"
  by (simp add: free_covers_unoccupied_def ContainerState_init_def)


lemma one_placed_state:
  "place_items (ContainerState_init ''A'' 100 100 100 ''Lab'')
     [(''000001'', 0, 0, 0, 10, 10, 10, (10, 10, 10), 50)] =
   \<lparr>cs_container_id = ''A'', cs_width = 100, cs_depth = 100, cs_height = 100, cs_zone = ''Lab'',
    cs_placed_items = [\<lparr>p_item_id = ''000001'', p_x = 0, p_y = 0, p_z = 0, p_width = 10, p_depth = 10,
                     p_height = 10, original_dims = (10, 10, 10), p_priority = 50\<rparr>],
    cs_free_spaces = [mk_FreeSpace 10 0 0 90 100 100],
    cs_total_volume = 1000000, cs_used_volume = 1000\<rparr>"
  by (simp add: ContainerState_init_def place_item_def can_place_item_def update_free_spaces_def
      splits_of_def spaces_overlap_def mk_FreeSpace_def volume_def placed_get_volume_def Let_def)


text \<open>
  Claim C7 as stated fails: after a 10 x 10 x 10 item is placed at the origin of a
  100 x 100 x 100 container the only free box left starts at width 10, and the point
  (5, 50, 5) is neither in the item nor in a free box.
\<close>

theorem free_spaces_cover_counterexample:
  "\<not> free_covers_unoccupied
       (place_items (ContainerState_init ''A'' 100 100 100 ''Lab'')
          [(''000001'', 0, 0, 0, 10, 10, 10, (10, 10, 10), 50)])"
proof
  let ?cs = "place_items (ContainerState_init ''A'' 100 100 100 ''Lab'')
          [(''000001'', 0, 0, 0, 10, 10, 10, (10, 10, 10), 50)]"
  assume "free_covers_unoccupied ?cs"
  then have cover: "\<exists>fs \<in> set (cs_free_spaces ?cs). point_in_box pt fs"
    if "point_in_box pt (mk_FreeSpace 0 0 0 (cs_width ?cs) (cs_depth ?cs) (cs_height ?cs))"
      and "\<forall>p \<in> set (cs_placed_items ?cs). \<not> point_in_box pt (item_box p)" for pt
    using that unfolding free_covers_unoccupied_def by blast
  have "\<exists>fs \<in> set (cs_free_spaces ?cs). point_in_box (5, 50, 5) fs"
    by (rule cover) (unfold one_placed_state, simp_all add: point_in_box_def item_box_def mk_FreeSpace_def)
  then show False
    unfolding one_placed_state by (simp add: point_in_box_def mk_FreeSpace_def)
qed

text \<open>
  Claim C7, amended. The initial free box covers the whole container. After any sequence of
  \<open>place_item\<close> calls the free boxes need not cover the unoccupied volume (the split keeps a
  left and a right residual only, drops residuals of volume at most 10 and retains at most
  50 boxes); what holds is that every free box lies within the container and overlaps no
  placed item.
\<close>

theorem free_spaces_inside_and_clear_of_items:
  "free_covers_unoccupied (ContainerState_init cid cw cd ch zn) \<and>
   (let cs = place_items (ContainerState_init cid cw cd ch zn) calls in
      \<forall>fs \<in> set (cs_free_spaces cs).
        free_inside cs fs \<and> (\<forall>p \<in> set (cs_placed_items cs). \<not> spaces_overlap fs (item_box p)))"
  using place_items_free_inv[OF init_free_inv, of cid cw cd ch zn calls] init_covers
  by (simp add: free_inv_def Let_def)



theorem free_spaces_inside_and_clear_of_items_witness:
  "free_covers_unoccupied (ContainerState_init ''A'' 100 100 100 ''Lab'') \<and>
   (let cs = place_items (ContainerState_init ''A'' 100 100 100 ''Lab'')
               [(''000001'', 0, 0, 0, 10, 10, 10, (10, 10, 10), 50)] in
      cs_free_spaces cs = [mk_FreeSpace 10 0 0 90 100 100] \<and>
      length (cs_placed_items cs) = 1 \<and>
      free_inside cs (mk_FreeSpace 10 0 0 90 100 100) \<and>
      \<not> spaces_overlap (mk_FreeSpace 10 0 0 90 100 100) (item_box (cs_placed_items cs ! 0)))"
  using free_spaces_inside_and_clear_of_items
          [of "''A''" 100 100 100 "''Lab''" "[(''000001'', 0, 0, 0, 10, 10, 10, (10, 10, 10), 50)]"]
  unfolding one_placed_state by (simp add: Let_def)


section \<open>Concrete instances\<close>

lemmas sample_defs = sample_item_def sample_position_def sample_parser_def one_day_def
  sample_container_def rear_item_def used_up_item_def garbled_item_def

lemma sample_expired: "is_expired sample_parser sample_item (Datetime False one_day)"
  by (simp add: is_expired_def sample_defs datetime_gt_def)







lemma sample_retrieved:
  "simulate_retrieval sample_parser (- 5) ''000001'' ''crew'' [(''000001'', sample_item)]
       [(''contA'', sample_container)] =
     ((True, ''Item retrieved successfully'', Some (sample_item\<lparr>currentUses := 1\<rparr>)),
      [(''000001'', sample_item\<lparr>currentUses := 1\<rparr>)])"
  by (simp add: simulate_retrieval_def is_expired_def is_depleted_def datetime_gt_def Let_def
      sample_item_def sample_parser_def)

lemma sample_refused:
  "simulate_retrieval sample_parser one_day ''000001'' ''crew'' [(''000001'', sample_item)]
       [(''contA'', sample_container)] =
     ((False, ''Item 000001 is expired'', None), [(''000001'', sample_item)])"
  using sample_expired
  by (simp add: simulate_retrieval_def Let_def) (simp add: sample_item_def)

lemma garbled_unparseable: "unparseable_expiry sample_parser garbled_item"
  by (simp add: unparseable_expiry_def garbled_item_def sample_item_def sample_parser_def)

section \<open>Blocking items of a retrieval\<close>

text \<open>
  Claim C2, evaluated on the code. Two items of one container with the same width-height
  projection, the first at depths 0 to 10 and the second behind it at depths 20 to 30.
  Retrieving the first, the plan removes the second, whose \<open>depth_start\<close> is larger;
  retrieving the second, the plan removes nothing, although the first starts strictly
  closer to the opening: the source tests \<open>item_end.depth > target_start.depth\<close>.
\<close>

theorem get_retrieval_steps_removes_items_behind:
  "get_retrieval_steps sample_item [(''000001'', sample_item), (''000002'', rear_item)]
       [(''contA'', sample_container)] =
     [\<lparr>rs_step = 1, rs_action = ''remove'', rs_itemId = ''000002'', rs_itemName = ''Tools''\<rparr>,
      \<lparr>rs_step = 2, rs_action = ''retrieve'', rs_itemId = ''000001'', rs_itemName = ''Food''\<rparr>,
      \<lparr>rs_step = 3, rs_action = ''placeBack'', rs_itemId = ''000002'', rs_itemName = ''Tools''\<rparr>] \<and>
   get_retrieval_steps rear_item [(''000001'', sample_item), (''000002'', rear_item)]
       [(''contA'', sample_container)] =
     [\<lparr>rs_step = 1, rs_action = ''retrieve'', rs_itemId = ''000002'', rs_itemName = ''Tools''\<rparr>] \<and>
   start_depth sample_item = 0 \<and> start_depth rear_item = 20 \<and>
   overlaps_in_plane (startCoordinates (sample_position 0 10)) (endCoordinates (sample_position 0 10))
     (startCoordinates (sample_position 20 30)) (endCoordinates (sample_position 20 30))"
  by (simp add: get_retrieval_steps_def get_blocking_items_def dict_values_def sample_defs Let_def
      overlaps_in_plane_def start_depth_def)

theorem get_retrieval_steps_removes_items_behind_witness:
  "map rs_action (get_retrieval_steps sample_item
        [(''000001'', sample_item), (''000002'', rear_item)] [(''contA'', sample_container)]) =
     [''remove'', ''retrieve'', ''placeBack''] \<and>
   map rs_itemId (get_retrieval_steps rear_item
        [(''000001'', sample_item), (''000002'', rear_item)] [(''contA'', sample_container)]) =
     [''000002'']"
  using get_retrieval_steps_removes_items_behind by simp

section \<open>The composite priority score\<close>

text \<open>
  Claim C3, evaluated on the code. For an item of priority 50 with no expiry date and
  \<open>currentUses = usageLimit = 10\<close> the score is 20: the usage term is 0, because the source
  looks for an attribute \<open>usageCount\<close> that no \<open>Item\<close> has. With the usage term computed
  from \<open>usageLimit - currentUses\<close> the score would be 40.
\<close>

theorem composite_priority_ignores_usage:
  "calculate_composite_priority f used_up_item now = 20 \<and>
   composite_score_spec f used_up_item now = 40 \<and>
   usageLimit used_up_item - currentUses used_up_item = 0"
  by (simp add: calculate_composite_priority_def composite_score_spec_def expiry_score_def
      usage_score_def usage_score_spec_def zone_score_def hasattr_usageCount_def sample_defs Let_def)

theorem composite_priority_ignores_usage_witness:
  "calculate_composite_priority sample_parser used_up_item (Datetime False 0)
     < composite_score_spec sample_parser used_up_item (Datetime False 0)"
  using composite_priority_ignores_usage[of sample_parser "Datetime False 0"] by simp

section \<open>Simulated retrieval\<close>

text \<open>
  The branches of \<open>simulate_retrieval\<close>, with expiry read through the source's own
  \<open>is_expired\<close>: the call fails exactly when the item is not found, is not placed, makes
  \<open>is_expired\<close> true at the clock reading or is depleted, and then changes nothing;
  every other call stores and returns the item with \<open>currentUses\<close> one higher and nothing
  else changed.
\<close>

lemma simulate_retrieval_cases:
  "(let r = simulate_retrieval f now item_id user_id placed_items containers;
        success = fst (fst r); returned = snd (snd (fst r)); placed_items' = snd r in
     (\<not> success \<longleftrightarrow>
        (map_of placed_items item_id = None \<or>
         (\<exists>it. map_of placed_items item_id = Some it \<and>
               (\<not> (truthy_str (containerId it) \<and> position it \<noteq> None) \<or>
                is_expired f it (Datetime False now) \<or> is_depleted it)))) \<and>
     (\<not> success \<longrightarrow> placed_items' = placed_items \<and> returned = None) \<and>
     (success \<longrightarrow>
        (\<exists>it it'. map_of placed_items item_id = Some it \<and>
            it' = it\<lparr>currentUses := currentUses it + 1\<rparr> \<and>
            returned = Some it' \<and>
            currentUses it' = currentUses it + 1 \<and>
            containerId it' = containerId it \<and> position it' = position it \<and>
            map_of placed_items' item_id = Some it' \<and>
            (\<forall>k. k \<noteq> item_id \<longrightarrow> map_of placed_items' k = map_of placed_items k))))"
  by (auto simp: simulate_retrieval_def Let_def update_conv' split: option.splits)

text \<open>
  Claim C4, evaluated on the code. A placed item with uses left whose expiry date is
  written with a UTC offset, \<open>2020-01-01T00:00:00+00:00\<close>, is retrieved 1979 days after that
  date: \<open>simulate_retrieval\<close> reads the naive clock, \<open>is_expired\<close> compares it with the
  zone-aware expiry date, the comparison raises \<open>TypeError\<close>, the bare \<open>except\<close> answers
  \<open>False\<close>, and the call succeeds although the item is expired at the current date.
\<close>

theorem simulate_retrieval_hands_out_expired_item:
  "expiryDate zoned_item = Some ''2020-01-01T00:00:00+00:00'' \<and>
   zoned_parser ''2020-01-01T00:00:00+00:00'' = Some (Datetime True (- 1978 * one_day)) \<and>
   \<not> is_expired zoned_parser zoned_item (Datetime False one_day) \<and>
   simulate_retrieval zoned_parser one_day ''000003'' ''crew'' [(''000003'', zoned_item)]
       [(''contA'', sample_container)] =
     ((True, ''Item retrieved successfully'', Some (zoned_item\<lparr>currentUses := 1\<rparr>)),
      [(''000003'', zoned_item\<lparr>currentUses := 1\<rparr>)])"
  by (simp add: simulate_retrieval_def is_expired_def is_depleted_def datetime_gt_def Let_def
      zoned_item_def zoned_parser_def sample_item_def)

theorem simulate_retrieval_hands_out_expired_item_witness:
  "fst (fst (simulate_retrieval zoned_parser one_day ''000003'' ''crew''
               [(''000003'', zoned_item)] [(''contA'', sample_container)])) \<and>
   currentUses (zoned_item\<lparr>currentUses := 1\<rparr>) = currentUses zoned_item + 1"
  using simulate_retrieval_hands_out_expired_item
  by (simp add: zoned_item_def sample_item_def)

text \<open>
  Claim C9. For a stored item with \<open>currentUses \<le> usageLimit\<close>: the call fails whenever
  \<open>currentUses \<ge> usageLimit\<close>; a failing call leaves the item as it was; a successful call
  starts from \<open>currentUses < usageLimit\<close> and stores the item with \<open>currentUses\<close> one higher
  and the same \<open>usageLimit\<close>, so \<open>currentUses \<le> usageLimit\<close> still holds.
\<close>

theorem simulate_retrieval_keeps_usage_bound:
  assumes "map_of placed_items item_id = Some it" and "currentUses it \<le> usageLimit it"
  shows "(let r = simulate_retrieval f now item_id user_id placed_items containers;
              success = fst (fst r); placed_items' = snd r in
          (currentUses it \<ge> usageLimit it \<longrightarrow> \<not> success) \<and>
          (\<not> success \<longrightarrow> map_of placed_items' item_id = Some it) \<and>
          (success \<longrightarrow> currentUses it < usageLimit it \<and>
             (\<exists>it'. map_of placed_items' item_id = Some it' \<and>
                    currentUses it' = currentUses it + 1 \<and>
                    usageLimit it' = usageLimit it \<and>
                    currentUses it' \<le> usageLimit it')))"
  using assms
  by (auto simp: simulate_retrieval_def Let_def update_conv' is_depleted_def split: option.splits)

theorem simulate_retrieval_keeps_usage_bound_witness:
  "map_of [(''000001'', sample_item)] ''000001'' = Some sample_item \<and>
   currentUses sample_item \<le> usageLimit sample_item \<and>
   fst (fst (simulate_retrieval sample_parser (- 5) ''000001'' ''crew'' [(''000001'', sample_item)]
               [(''contA'', sample_container)])) \<and>
   map_of (snd (simulate_retrieval sample_parser (- 5) ''000001'' ''crew''
                  [(''000001'', sample_item)] [(''contA'', sample_container)])) ''000001'' =
     Some (sample_item\<lparr>currentUses := 1\<rparr>) \<and>
   currentUses (sample_item\<lparr>currentUses := 1\<rparr>) \<le> usageLimit (sample_item\<lparr>currentUses := 1\<rparr>)"
proof -
  have a: "map_of [(''000001'', sample_item)] ''000001'' = Some sample_item" by simp
  have b: "currentUses sample_item \<le> usageLimit sample_item" by (simp add: sample_item_def)
  have c: "fst (fst (simulate_retrieval sample_parser (- 5) ''000001'' ''crew''
               [(''000001'', sample_item)] [(''contA'', sample_container)]))"
    "map_of (snd (simulate_retrieval sample_parser (- 5) ''000001'' ''crew''
                  [(''000001'', sample_item)] [(''contA'', sample_container)])) ''000001'' =
     Some (sample_item\<lparr>currentUses := 1\<rparr>)"
    by (simp_all add: sample_retrieved)
  have d: "currentUses (sample_item\<lparr>currentUses := 1\<rparr>)
             \<le> usageLimit (sample_item\<lparr>currentUses := 1\<rparr>)"
    by (simp add: sample_item_def)
  from simulate_retrieval_keeps_usage_bound[OF a b, of sample_parser "- 5" "''crew''" "[(''contA'', sample_container)]"] a b c d
  show ?thesis by blast
qed

section \<open>Waste identification\<close>

lemma identify_waste_loop_eq:
  "identify_waste_loop f d its acc =
     acc @ map (\<lambda>it. \<lparr>w_itemId = itemId it, w_name = name it,
                       w_reason = (if is_expired f it d then ''Expired'' else ''Out of Uses''),
                       w_containerId = containerId it, w_position = position it\<rparr>)
            (filter (\<lambda>it. (truthy_str (containerId it) \<and> position it \<noteq> None) \<and>
                           (is_expired f it d \<or> is_depleted it)) its)"
  by (induction its arbitrary: acc) (auto simp: Let_def)

text \<open>
  The list that \<open>identify_waste_items\<close> builds, with expiry read through the source's
  own \<open>is_expired\<close>: in the order of the store, one entry for each placed item that makes
  \<open>is_expired\<close> true or is depleted, the reason being \<open>Expired\<close> in the first case.
\<close>

lemma identify_waste_items_eq:
  "identify_waste_items f placed_items now =
     map (\<lambda>it. \<lparr>w_itemId = itemId it, w_name = name it,
                 w_reason = (if is_expired f it now then ''Expired'' else ''Out of Uses''),
                 w_containerId = containerId it, w_position = position it\<rparr>)
       (filter (\<lambda>it. (truthy_str (containerId it) \<and> position it \<noteq> None) \<and>
                      (is_expired f it now \<or> is_depleted it))
          (dict_values placed_items))"
  by (simp add: identify_waste_items_def identify_waste_loop_eq)

text \<open>
  Claim C5, evaluated on the code. A placed item whose expiry date is written with a UTC
  offset, \<open>2020-01-01T00:00:00+00:00\<close>, is not reported as waste at a naive current date
  1979 days later: \<open>is_expired\<close> cannot compare the two dates and answers \<open>False\<close>, so
  \<open>identify_waste_items\<close> returns no entry although the item is placed and expired
  relative to that date.
\<close>

theorem identify_waste_items_misses_expired_item:
  "expiryDate zoned_item = Some ''2020-01-01T00:00:00+00:00'' \<and>
   zoned_parser ''2020-01-01T00:00:00+00:00'' = Some (Datetime True (- 1978 * one_day)) \<and>
   truthy_str (containerId zoned_item) \<and> position zoned_item = Some (sample_position 0 10) \<and>
   identify_waste_items zoned_parser [(''000003'', zoned_item)] (Datetime False one_day) = []"
  by (simp add: identify_waste_items_def dict_values_def is_expired_def is_depleted_def
      datetime_gt_def Let_def zoned_item_def zoned_parser_def sample_item_def)

theorem identify_waste_items_misses_expired_item_witness:
  "length (identify_waste_items zoned_parser [(''000003'', zoned_item)]
             (Datetime False one_day)) = 0 \<and>
   containerId zoned_item = Some ''contA''"
  using identify_waste_items_misses_expired_item
  by (simp add: zoned_item_def sample_item_def)

lemma unparseable_not_expired:
  "unparseable_expiry f it \<Longrightarrow> \<not> is_expired f it d"
  by (auto simp: unparseable_expiry_def is_expired_def split: option.splits)

text \<open>
  Claim C10. An item whose \<open>expiryDate\<close> is a non-empty string other than \<open>N/A\<close> that
  \<open>fromisoformat\<close> rejects is expired at no date; an entry that \<open>identify_waste_items\<close>
  reports for it has the reason \<open>Out of Uses\<close>, never \<open>Expired\<close>; and
  \<open>simulate_retrieval\<close> on it fails only as not placed or as depleted.
\<close>

theorem unparseable_expiry_never_expired:
  assumes "unparseable_expiry f it"
  shows "(\<forall>current_date. \<not> is_expired f it current_date) \<and>
         (\<forall>placed_items current_date.
            (\<forall>it' \<in> set (dict_values placed_items). itemId it' = itemId it \<longrightarrow> it' = it) \<longrightarrow>
            (\<forall>e \<in> set (identify_waste_items f placed_items current_date).
               w_itemId e = itemId it \<longrightarrow> w_reason e = ''Out of Uses'')) \<and>
         (\<forall>placed_items now item_id user_id containers.
            map_of placed_items item_id = Some it \<longrightarrow>
            simulate_retrieval f now item_id user_id placed_items containers =
              (if \<not> truthy_str (containerId it) \<or> position it = None
               then ((False, ''Item '' @ item_id @ '' is not placed in any container'', None),
                     placed_items)
               else if is_depleted it
               then ((False, ''Item '' @ item_id @ '' has no remaining uses'', None), placed_items)
               else ((True, ''Item retrieved successfully'',
                      Some (it\<lparr>currentUses := currentUses it + 1\<rparr>)),
                     AList.update item_id (it\<lparr>currentUses := currentUses it + 1\<rparr>)
                       placed_items)))"
proof -
  have ne: "\<not> is_expired f it d" for d
    using assms by (rule unparseable_not_expired)
  have w: "w_reason e = ''Out of Uses''"
    if "\<forall>it' \<in> set (dict_values placed_items). itemId it' = itemId it \<longrightarrow> it' = it"
      and "e \<in> set (identify_waste_items f placed_items d)" and "w_itemId e = itemId it"
    for placed_items d e
    using that ne by (auto simp: identify_waste_items_def identify_waste_loop_eq)
  have s: "simulate_retrieval f now item_id user_id placed_items containers =
              (if \<not> truthy_str (containerId it) \<or> position it = None
               then ((False, ''Item '' @ item_id @ '' is not placed in any container'', None),
                     placed_items)
               else if is_depleted it
               then ((False, ''Item '' @ item_id @ '' has no remaining uses'', None), placed_items)
               else ((True, ''Item retrieved successfully'',
                      Some (it\<lparr>currentUses := currentUses it + 1\<rparr>)),
                     AList.update item_id (it\<lparr>currentUses := currentUses it + 1\<rparr>)
                       placed_items))"
    if "map_of placed_items item_id = Some it" for placed_items now item_id user_id containers
    using that ne by (simp add: simulate_retrieval_def Let_def)
  from ne w s show ?thesis by blast
qed

theorem unparseable_expiry_never_expired_witness:
  "unparseable_expiry sample_parser garbled_item \<and>
   \<not> is_expired sample_parser garbled_item (Datetime False one_day) \<and>
   identify_waste_items sample_parser [(''000001'', garbled_item)] (Datetime False one_day) = [] \<and>
   simulate_retrieval sample_parser one_day ''000001'' ''crew'' [(''000001'', garbled_item)]
       [(''contA'', sample_container)] =
     ((True, ''Item retrieved successfully'', Some (garbled_item\<lparr>currentUses := 1\<rparr>)),
      [(''000001'', garbled_item\<lparr>currentUses := 1\<rparr>)])"
proof -
  note t = unparseable_expiry_never_expired[OF garbled_unparseable]
  from t have ne: "\<not> is_expired sample_parser garbled_item (Datetime False one_day)" by blast
  from t have sim: "simulate_retrieval sample_parser one_day ''000001'' ''crew''
       [(''000001'', garbled_item)] [(''contA'', sample_container)] =
     ((True, ''Item retrieved successfully'', Some (garbled_item\<lparr>currentUses := 1\<rparr>)),
      [(''000001'', garbled_item\<lparr>currentUses := 1\<rparr>)])"
    by (simp add: is_depleted_def garbled_item_def sample_item_def)
  have "identify_waste_items sample_parser [(''000001'', garbled_item)] (Datetime False one_day) = []"
    using ne by (simp add: identify_waste_items_def dict_values_def is_depleted_def Let_def)
      (simp add: garbled_item_def sample_item_def)
  with ne sim garbled_unparseable show ?thesis by simp
qed

section \<open>The return plan\<close>







section \<open>Undocking\<close>

lemma collect_loop_eq:
  "collect_loop c ps acc n =
     (acc @ map fst (filter (\<lambda>(k, it). containerId it = Some c) ps),
      n + int (length (filter (\<lambda>(k, it). containerId it = Some c) ps)))"
  by (induction ps arbitrary: acc n) auto

lemma map_of_remove_loop:
  "map_of (remove_loop ks ps) k = (if k \<in> set ks then None else map_of ps k)"
proof (induction ks arbitrary: ps)
  case Nil
  then show ?case by simp
next
  case (Cons a ks)
  have "map_of ps a = None" if "\<not> dict_contains a ps"
    using that by (simp add: dict_contains_def map_of_eq_None_iff)
  then show ?case using Cons.IH
    by (auto simp: delete_conv')
qed

lemma length_filter_values:
  "length (filter (\<lambda>(k, it). P it) ps) = length (filter P (dict_values ps))"
  by (induction ps) (auto simp: dict_values_def)

text \<open>
  Claim C8 as stated fails: an item assigned to the undocked container is not left in
  the item store unplaced, it is deleted from the store.
\<close>

theorem execute_undocking_item_absent_counterexample:
  "containerId sample_item = Some ''contA'' \<and>
   map_of [(''000001'', sample_item)] ''000001'' = Some sample_item \<and>
   map_of (fst (snd (execute_undocking ''contA'' [(''000001'', sample_item)]
                       [(''contA'', sample_container)]))) ''000001'' = None"
  by (simp add: execute_undocking_def dict_contains_def sample_item_def Let_def)

text \<open>
  Claim C8, amended. For a container id present in the container store (and an item
  store with each key once), \<open>execute_undocking\<close> removes that container record, returns
  the count of items assigned to it, deletes each of those items from the item store, and
  leaves every other item and container unchanged.
\<close>

theorem execute_undocking_removes_items:
  assumes "dict_contains cid containers" and "distinct (map fst placed_items)"
  shows "(let r = execute_undocking cid placed_items containers;
              placed_items' = fst (snd r); containers' = snd (snd r) in
          fst r = (True, int (length (filter (\<lambda>it. containerId it = Some cid)
                                        (dict_values placed_items)))) \<and>
          map_of containers' cid = None \<and>
          (\<forall>k. k \<noteq> cid \<longrightarrow> map_of containers' k = map_of containers k) \<and>
          (\<forall>k it. map_of placed_items k = Some it \<longrightarrow>
             map_of placed_items' k = (if containerId it = Some cid then None else Some it)) \<and>
          (\<forall>k. map_of placed_items k = None \<longrightarrow> map_of placed_items' k = None))"
proof -
  let ?ks = "map fst (filter (\<lambda>(k, it). containerId it = Some cid) placed_items)"
  have mem: "k \<in> set ?ks \<longleftrightarrow> containerId it = Some cid"
    if "map_of placed_items k = Some it" for k it
  proof
    assume "k \<in> set ?ks"
    then obtain it' where "(k, it') \<in> set placed_items" "containerId it' = Some cid"
      by auto
    moreover from this assms(2) have "map_of placed_items k = Some it'" by simp
    ultimately show "containerId it = Some cid" using that by simp
  next
    assume "containerId it = Some cid"
    moreover from that have "(k, it) \<in> set placed_items" by (rule map_of_SomeD)
    ultimately show "k \<in> set ?ks" by force
  qed
  have nomem: "k \<notin> set ?ks" if "map_of placed_items k = None" for k
    using that by (force simp: map_of_eq_None_iff)
  show ?thesis
    using assms(1) mem nomem
    by (simp add: execute_undocking_def Let_def collect_loop_eq map_of_remove_loop
        delete_conv' length_filter_values)
qed

theorem execute_undocking_removes_items_witness:
  "dict_contains ''contA'' [(''contA'', sample_container)] \<and>
   distinct (map fst [(''000001'', sample_item), (''000002'', rear_item\<lparr>containerId := Some ''contB''\<rparr>)]) \<and>
   execute_undocking ''contA''
       [(''000001'', sample_item), (''000002'', rear_item\<lparr>containerId := Some ''contB''\<rparr>)]
       [(''contA'', sample_container)] =
     ((True, 1), [(''000002'', rear_item\<lparr>containerId := Some ''contB''\<rparr>)], [])"
  using execute_undocking_removes_items[of "''contA''" "[(''contA'', sample_container)]"
      "[(''000001'', sample_item), (''000002'', rear_item\<lparr>containerId := Some ''contB''\<rparr>)]"]
  by (simp add: execute_undocking_def dict_contains_def sample_item_def rear_item_def Let_def)


end
